theory Spec2Isabelle
  imports Complex_Main
begin

section \<open>Python values\<close>

text \<open>
  The simulator passes booleans, integers and floats through untyped dictionaries
  (\<^verbatim>\<open>Dict[str, Any]\<close>). Floats are modelled as exact reals: rounding of IEEE
  doubles is not part of the model.
\<close>

datatype pyval = PyBool bool | PyInt int | PyFloat real

text \<open>Truth value of an object in a condition (\<^verbatim>\<open>if x:\<close>).\<close>

fun truthy :: "pyval \<Rightarrow> bool" where
  "truthy (PyBool b) = b"
| "truthy (PyInt i) = (i \<noteq> 0)"
| "truthy (PyFloat r) = (r \<noteq> 0)"

text \<open>\<^verbatim>\<open>d.get(key, default)\<close> on a dictionary.\<close>

definition dict_get :: "(string \<rightharpoonup> pyval) \<Rightarrow> string \<Rightarrow> pyval \<Rightarrow> pyval" where
  "dict_get d k dflt = (case d k of None \<Rightarrow> dflt | Some v \<Rightarrow> v)"

text \<open>\<^verbatim>\<open>int(x)\<close> on a float truncates towards zero.\<close>

definition int_of_float :: "real \<Rightarrow> int" where
  "int_of_float x = (if 0 \<le> x then \<lfloor>x\<rfloor> else \<lceil>x\<rceil>)"

section \<open>Physics engines (sim/common/physics.py)\<close>

text \<open>
  The engines compute with doubles; the model computes with exact reals. The two agree
  up to rounding: a position that is exactly 130.05 here is 130.04999999999995 in the
  code, and a value the code compares with a threshold (the level with 0.8) or truncates
  to an integer (the tank level in percent) can fall on the other side of it at a
  rounding edge. The properties below read the state of the engines (level, spilled,
  processed, phase, position), never the emitted dictionary.
\<close>

record PhysicsState =
  time :: real
  dt :: real

subsection \<open>BottleFillingPhysics\<close>

definition k_pump :: real where "k_pump = 0.1"
definition k_drain :: real where "k_drain = 0.05"
definition leak_rate :: real where "leak_rate = 0.001"
definition gravity :: real where "gravity = 9.81"

record bottle =
  bottle_level :: real
  bottle_position :: real
  water_flow :: real
  bottle_in_position :: bool
  bottle_filled :: bool
  bottle_state :: PhysicsState

text \<open>\<^verbatim>\<open>BottleFillingPhysics.__init__\<close>\<close>

definition bottle_init :: bottle where
  "bottle_init = \<lparr>bottle_level = 0, bottle_position = 0, water_flow = 0,
     bottle_in_position = False, bottle_filled = False,
     bottle_state = \<lparr>time = 0, dt = 0.02\<rparr>\<rparr>"

text \<open>
  \<^verbatim>\<open>BottleFillingPhysics.update(dt, inputs)\<close>: the new engine state and the
  returned dictionary (in insertion order).
\<close>

definition bottle_update ::
  "real \<Rightarrow> (string \<rightharpoonup> pyval) \<Rightarrow> bottle \<Rightarrow> bottle \<times> (string \<times> pyval) list" where
  "bottle_update d inputs s0 =
    (let s1 = s0\<lparr>bottle_state := \<lparr>time = time (bottle_state s0) + d, dt = d\<rparr>\<rparr>;
         motor_on = truthy (dict_get inputs ''ACT_MOTOR'' (PyBool False));
         nozzle_open = truthy (dict_get inputs ''ACT_NOZZLE'' (PyBool False));
         s2 = (if motor_on
               then s1\<lparr>bottle_position := bottle_position s1 + 0.25 * d\<rparr>
               else s1);
         s3 = (if nozzle_open \<and> bottle_in_position s2
               then s2\<lparr>bottle_level := bottle_level s2 + k_pump * d, water_flow := k_pump\<rparr>
               else (if bottle_level s2 > 0
                     then s2\<lparr>bottle_level :=
                            max 0 (bottle_level s2 - k_drain * d - leak_rate * d)\<rparr>
                     else s2)\<lparr>water_flow := 0\<rparr>);
         s4 = s3\<lparr>bottle_in_position :=
                  (130 \<le> bottle_position s3 \<and> bottle_position s3 \<le> 200)\<rparr>;
         s5 = s4\<lparr>bottle_filled := (bottle_level s4 \<ge> 0.8)\<rparr>;
         s6 = (if bottle_position s5 > 600
               then s5\<lparr>bottle_position := 130, bottle_level := 0\<rparr>
               else s5)
     in (s6, [(''SENSOR_LIMIT_SWITCH'', PyBool (bottle_in_position s6)),
              (''SENSOR_LEVEL_SENSOR'', PyBool (bottle_filled s6)),
              (''bottle_level'', PyFloat (bottle_level s6)),
              (''bottle_position'', PyFloat (bottle_position s6)),
              (''water_flow'', PyFloat (water_flow s6))]))"

text \<open>\<open>n\<close> successive calls of \<^verbatim>\<open>update\<close> with the same step and inputs.\<close>

fun bottle_run :: "nat \<Rightarrow> real \<Rightarrow> (string \<rightharpoonup> pyval) \<Rightarrow> bottle \<Rightarrow> bottle" where
  "bottle_run 0 d inputs s = s"
| "bottle_run (Suc n) d inputs s = bottle_run n d inputs (fst (bottle_update d inputs s))"

subsection \<open>OilRefineryPhysics\<close>

definition k_feed :: real where "k_feed = 0.2"
definition k_relief :: real where "k_relief = 0.15"
definition k_processing :: real where "k_processing = 0.1"
definition tank_capacity :: real where "tank_capacity = 100"

record refinery =
  tank_level :: real
  oil_spilled :: real
  oil_processed :: real
  processing_phase :: int
  refinery_state :: PhysicsState

text \<open>\<^verbatim>\<open>OilRefineryPhysics.__init__\<close>\<close>

definition refinery_init :: refinery where
  "refinery_init = \<lparr>tank_level = 20, oil_spilled = 0, oil_processed = 0,
     processing_phase = 0, refinery_state = \<lparr>time = 0, dt = 0.02\<rparr>\<rparr>"

text \<open>The feed-pump block of \<^verbatim>\<open>update\<close> (lines 117-120).\<close>

definition feed_step :: "real \<Rightarrow> bool \<Rightarrow> refinery \<Rightarrow> refinery" where
  "feed_step d feed_pump_on s =
    (if feed_pump_on
     then s\<lparr>tank_level := min tank_capacity (tank_level s + k_feed * d)\<rparr>
     else s)"

text \<open>The processing-phase block of \<^verbatim>\<open>update\<close> (lines 122-140).\<close>

definition phase_step :: "real \<Rightarrow> bool \<Rightarrow> bool \<Rightarrow> bool \<Rightarrow> refinery \<Rightarrow> refinery" where
  "phase_step d outlet_valve_open sep_valve_open waste_valve_open s =
    (if processing_phase s = 1
     then (if tank_level s \<ge> 80 then s\<lparr>processing_phase := 2\<rparr> else s)
     else if processing_phase s = 2
     then (if outlet_valve_open \<and> sep_valve_open
           then (let process_rate = min (k_processing * d) (tank_level s)
                 in s\<lparr>tank_level := tank_level s - process_rate,
                      oil_processed := oil_processed s + process_rate\<rparr>)
           else s)
     else if processing_phase s = 3
     then (if waste_valve_open
           then (let empty_rate = k_relief * d;
                     s' = s\<lparr>tank_level := max 0 (tank_level s - empty_rate)\<rparr>
                 in if tank_level s' \<le> 20 then s'\<lparr>processing_phase := 0\<rparr> else s')
           else s)
     else s)"

text \<open>The spill block of \<^verbatim>\<open>update\<close> (lines 142-146).\<close>

definition spill_step :: "refinery \<Rightarrow> refinery" where
  "spill_step s =
    (if tank_level s > tank_capacity
     then (let spill_amount = tank_level s - tank_capacity
           in s\<lparr>oil_spilled := oil_spilled s + spill_amount,
                tank_level := tank_capacity\<rparr>)
     else s)"

text \<open>
  \<^verbatim>\<open>OilRefineryPhysics.update(dt, inputs)\<close>: the new engine state and the
  returned dictionary. \<^verbatim>\<open>tank_capacity\<close> is \<open>100.0\<close>, so the division of line 149
  does not raise.
\<close>

definition refinery_update ::
  "real \<Rightarrow> (string \<rightharpoonup> pyval) \<Rightarrow> refinery \<Rightarrow> refinery \<times> (string \<times> pyval) list" where
  "refinery_update d inputs s0 =
    (let s1 = s0\<lparr>refinery_state := \<lparr>time = time (refinery_state s0) + d, dt = d\<rparr>\<rparr>;
         feed_pump_on = truthy (dict_get inputs ''ACT_FEED_PUMP'' (PyBool False));
         outlet_valve_open = truthy (dict_get inputs ''ACT_OUTLET_VALVE'' (PyBool False));
         sep_valve_open = truthy (dict_get inputs ''ACT_SEP_VALVE'' (PyBool False));
         waste_valve_open = truthy (dict_get inputs ''ACT_WASTE_VALVE'' (PyBool False));
         s2 = feed_step d feed_pump_on s1;
         s3 = phase_step d outlet_valve_open sep_valve_open waste_valve_open s2;
         s4 = spill_step s3;
         tank_level_percent = int_of_float ((tank_level s4 / tank_capacity) * 100);
         oil_upper_sensor = (tank_level s4 > 90)
     in (s4, [(''SENSOR_TANK_LEVEL'', PyInt tank_level_percent),
              (''SENSOR_OIL_SPILL'', PyInt (int_of_float (oil_spilled s4))),
              (''SENSOR_OIL_PROCESSED'', PyInt (int_of_float (oil_processed s4))),
              (''SENSOR_OIL_UPPER'', PyBool oil_upper_sensor),
              (''tank_level'', PyFloat (tank_level s4)),
              (''oil_spilled'', PyFloat (oil_spilled s4)),
              (''oil_processed'', PyFloat (oil_processed s4)),
              (''processing_phase'', PyInt (processing_phase s4))]))"

text \<open>A run of the engine: one \<^verbatim>\<open>update\<close> per element, each with its own step and inputs.\<close>

fun refinery_run :: "(real \<times> (string \<rightharpoonup> pyval)) list \<Rightarrow> refinery \<Rightarrow> refinery" where
  "refinery_run [] s = s"
| "refinery_run ((d, inputs) # ticks) s = refinery_run ticks (fst (refinery_update d inputs s))"

section \<open>Modbus bridge (sim/common/modbus_bridge.py)\<close>

text \<open>
  Exceptions are values: every \<^verbatim>\<open>raise\<close> of the bridge, every exception the
  built-ins it calls can raise on the modelled inputs, and \<^verbatim>\<open>sys.exit\<close>.
  Printed lines are collected as a list of messages.
\<close>

datatype py_error =
    FileNotFoundError string
  | KeyError string
  | ValueError string
  | IndexError
  | SystemExit int

datatype message =
    Warning_IR_file_not_found string
  | Warning_skipping_IR_validation
  | Warning_tags_in_IR_not_in_map "string set"
  | Warning_tags_in_map_not_in_IR "string list"
  | Error_should_have_role string string string
  | Error_role_validation_failed string

definition and_then :: "py_error + 'a \<Rightarrow> ('a \<Rightarrow> py_error + 'b) \<Rightarrow> py_error + 'b" where
  "and_then r f = (case r of Inl e \<Rightarrow> Inl e | Inr v \<Rightarrow> f v)"

subsection \<open>Built-ins: \<^verbatim>\<open>str.startswith\<close>, \<^verbatim>\<open>int(str)\<close>, dictionary assignment\<close>

definition startswith :: "string \<Rightarrow> string \<Rightarrow> bool" where
  "startswith s p = (take (length p) s = p)"

text \<open>
  \<^verbatim>\<open>int(s)\<close> on an ASCII string: surrounding whitespace (tab, line feed, vertical
  tab, form feed, carriage return, space) is dropped, one sign is allowed, then decimal
  digits, with single underscores between digits. The text of the \<^verbatim>\<open>ValueError\<close>
  is abbreviated (Python prints the \<^verbatim>\<open>repr\<close> of \<open>s\<close>).
\<close>

definition is_space :: "char \<Rightarrow> bool" where
  "is_space c = (let n = (of_char c :: nat) in (9 \<le> n \<and> n \<le> 13) \<or> n = 32)"

definition is_digit :: "char \<Rightarrow> bool" where
  "is_digit c = (let n = (of_char c :: nat) in 48 \<le> n \<and> n \<le> 57)"

definition digit_val :: "char \<Rightarrow> int" where
  "digit_val c = int (of_char c) - 48"

definition strip :: "string \<Rightarrow> string" where
  "strip s = rev (dropWhile is_space (rev (dropWhile is_space s)))"

fun digits_ok :: "string \<Rightarrow> bool" where
  "digits_ok [] = False"
| "digits_ok [c] = is_digit c"
| "digits_ok (c # d # cs) =
     (is_digit c \<and> (if d = CHR ''_'' then digits_ok cs else digits_ok (d # cs)))"

definition py_int :: "string \<Rightarrow> py_error + int" where
  "py_int s =
    (let t = strip s;
         neg = (t \<noteq> [] \<and> hd t = CHR ''-'');
         body = (if t \<noteq> [] \<and> (hd t = CHR ''-'' \<or> hd t = CHR ''+'') then tl t else t)
     in if digits_ok body
        then Inr ((if neg then - 1 else 1) *
                  foldl (\<lambda>acc c. 10 * acc + digit_val c) 0 (filter is_digit body))
        else Inl (ValueError (''invalid literal for int() with base 10: '' @ s)))"

text \<open>
  \<^verbatim>\<open>d[k] = v\<close> on a dictionary kept in insertion order: an existing key keeps its
  place, a new key goes last.
\<close>

fun dict_set :: "'k \<Rightarrow> 'v \<Rightarrow> ('k \<times> 'v) list \<Rightarrow> ('k \<times> 'v) list" where
  "dict_set k v [] = [(k, v)]"
| "dict_set k v ((k', v') # d) = (if k' = k then (k, v) # d else (k', v') # dict_set k v d)"

subsection \<open>Loading the tag map\<close>

text \<open>
  A row of \<^verbatim>\<open>csv.DictReader\<close> is a dictionary from column names to strings; a
  column the header lacks is a \<^verbatim>\<open>KeyError\<close>. (Rows shorter than the header,
  whose missing cells are \<^verbatim>\<open>None\<close>, are outside this type.)
\<close>

type_synonym row = "string \<rightharpoonup> string"

definition row_get :: "row \<Rightarrow> string \<Rightarrow> py_error + string" where
  "row_get r k = (case r k of None \<Rightarrow> Inl (KeyError k) | Some v \<Rightarrow> Inr v)"

record tag_mapping =
  type :: string
  table :: string
  address :: int
  width :: int
  units :: string
  desc :: string
  role :: string

text \<open>The body of the loop of \<^verbatim>\<open>_load_modbus_map\<close>, in evaluation order.\<close>

definition load_row :: "row \<Rightarrow> py_error + (string \<times> tag_mapping)" where
  "load_row r =
    and_then (row_get r ''name'') (\<lambda>tag_name.
    and_then (row_get r ''type'') (\<lambda>ty.
    and_then (row_get r ''table'') (\<lambda>tb.
    and_then (and_then (row_get r ''address'') py_int) (\<lambda>a.
    and_then (and_then (row_get r ''width'') (\<lambda>w. if w \<noteq> [] then py_int w else Inr 1)) (\<lambda>wd.
    and_then (row_get r ''units'') (\<lambda>u.
    and_then (row_get r ''desc'') (\<lambda>de.
    and_then (row_get r ''role'') (\<lambda>ro.
      Inr (tag_name, \<lparr>type = ty, table = tb, address = a, width = wd,
                       units = u, desc = de, role = ro\<rparr>)))))))))"

fun load_rows ::
  "row list \<Rightarrow> (string \<times> tag_mapping) list \<Rightarrow> py_error + (string \<times> tag_mapping) list" where
  "load_rows [] mappings = Inr mappings"
| "load_rows (r # rs) mappings =
     (case load_row r of
        Inl e \<Rightarrow> Inl e
      | Inr (tag_name, m) \<Rightarrow> load_rows rs (dict_set tag_name m mappings))"

text \<open>
  \<^verbatim>\<open>_load_modbus_map\<close>: the file is \<open>None\<close> when it does not exist, and its rows
  otherwise.
\<close>

definition load_modbus_map ::
  "string \<Rightarrow> row list option \<Rightarrow> py_error + (string \<times> tag_mapping) list" where
  "load_modbus_map file_name file =
    (case file of
       None \<Rightarrow> Inl (FileNotFoundError (''Modbus map file not found: '' @ file_name))
     | Some rows \<Rightarrow> load_rows rows [])"

subsection \<open>The reference model (CrossPLC IR) and the validation of the mappings\<close>

text \<open>
  The IR document as the code reads it: the components under
  \<^verbatim>\<open>detailed_components\<close> (if the key is there), each with the names of its
  \<^verbatim>\<open>tags.controller_tags\<close> (\<open>None\<close> when the component has no \<^verbatim>\<open>tags\<close>),
  and the other top-level keys, which only matter for the truth value of the document.
\<close>

record ir_doc =
  detailed_components :: "(string \<times> string list option) list option"
  other_keys :: "string list"

definition load_ir_data :: "string \<Rightarrow> ir_doc option \<Rightarrow> message list \<times> ir_doc option" where
  "load_ir_data file_name file =
    (case file of
       None \<Rightarrow> ([Warning_IR_file_not_found file_name], None)
     | Some doc \<Rightarrow> ([], Some doc))"

text \<open>\<^verbatim>\<open>not self.ir_data\<close>: \<^verbatim>\<open>None\<close> or an empty dictionary.\<close>

definition ir_data_falsy :: "ir_doc option \<Rightarrow> bool" where
  "ir_data_falsy d =
    (case d of
       None \<Rightarrow> True
     | Some doc \<Rightarrow> detailed_components doc = None \<and> other_keys doc = [])"

definition ir_tag_names :: "ir_doc \<Rightarrow> string list" where
  "ir_tag_names doc =
    (case detailed_components doc of
       None \<Rightarrow> []
     | Some comps \<Rightarrow> concat (map (\<lambda>(plc_name, tags). case tags of None \<Rightarrow> [] | Some ns \<Rightarrow> ns) comps))"

text \<open>\<^verbatim>\<open>_validate_tag_role\<close>\<close>

definition validate_tag_role :: "string \<Rightarrow> tag_mapping \<Rightarrow> message list \<times> bool" where
  "validate_tag_role tag_name m =
    (if startswith tag_name ''SENSOR_'' \<and> role m \<noteq> ''Sensor''
     then ([Error_should_have_role tag_name ''Sensor'' (role m)], False)
     else if startswith tag_name ''ACT_'' \<and> role m \<noteq> ''Actuator''
     then ([Error_should_have_role tag_name ''Actuator'' (role m)], False)
     else if startswith tag_name ''CMD_'' \<and> role m \<noteq> ''Command''
     then ([Error_should_have_role tag_name ''Command'' (role m)], False)
     else ([], True))"

text \<open>The last loop of \<^verbatim>\<open>_validate_mappings\<close> (role compliance).\<close>

fun validate_roles :: "(string \<times> tag_mapping) list \<Rightarrow> message list \<times> (py_error + unit)" where
  "validate_roles [] = ([], Inr ())"
| "validate_roles ((tag_name, m) # rest) =
     (let (msgs, ok) = validate_tag_role tag_name m
      in if \<not> ok
         then (msgs @ [Error_role_validation_failed tag_name], Inl (SystemExit 1))
         else (let (msgs', r) = validate_roles rest in (msgs @ msgs', r)))"

text \<open>
  \<^verbatim>\<open>_validate_mappings\<close>. The tags of the IR are a Python set, whose iteration
  order is not fixed, so the first warning carries a set.
\<close>

definition validate_mappings ::
  "(string \<times> tag_mapping) list \<Rightarrow> ir_doc option \<Rightarrow> message list \<times> (py_error + unit)" where
  "validate_mappings tag_mappings ir_data =
    (case ir_data of
       None \<Rightarrow> ([Warning_skipping_IR_validation], Inr ())
     | Some doc \<Rightarrow>
        if ir_data_falsy ir_data then ([Warning_skipping_IR_validation], Inr ())
        else
         (let ir_tags = ir_tag_names doc;
              missing_tags = filter (\<lambda>t. map_of tag_mappings t = None) ir_tags;
              unmapped_tags = filter (\<lambda>t. \<not> List.member ir_tags t) (map fst tag_mappings);
              msgs1 = (if missing_tags \<noteq> [] then [Warning_tags_in_IR_not_in_map (set missing_tags)] else []);
              msgs2 = (if unmapped_tags \<noteq> [] then [Warning_tags_in_map_not_in_IR unmapped_tags] else []);
              (msgs3, r) = validate_roles tag_mappings
          in (msgs1 @ msgs2 @ msgs3, r)))"

subsection \<open>The register tables\<close>

text \<open>
  The register tables are objects of the external protocol library
  (\<^verbatim>\<open>ModbusSequentialDataBlock\<close> of pymodbus), which is no part of the repository.
  The bridge creates each of them at base address 0 over a list of 100 zeros and
  reaches into them with \<^verbatim>\<open>getValues\<close> and \<^verbatim>\<open>setValues\<close>. The spec fixes
  what a table is inside its cells, a flat array; neither the spec nor the sources fix
  what the library does with an address that is no cell of the table, and versions of
  the library differ there. The properties of the accessors below are stated without
  that behaviour, but for two closed facts: the value written to a tag at address 150
  is not read back.
\<close>

text \<open>
  A bound of a Python slice \<^verbatim>\<open>xs[i:j]\<close> of a list of length \<open>n\<close>: a negative
  bound counts from the end, and every bound is cut to the list.
\<close>

definition slice_bound :: "nat \<Rightarrow> int \<Rightarrow> nat" where
  "slice_bound n i = (if i < 0 then nat (max 0 (i + int n)) else min (nat i) n)"

text \<open>
  Modelled from the spec: \<^verbatim>\<open>getValues(address, count)\<close> of the library's data
  block, which is missing from the sources. For an address inside the table
  (\<open>0 \<le> address\<close>, \<open>address + count \<le>\<close> the number of cells) it is the read of the
  spec's flat array: the cells from \<open>address\<close> on (lemma \<open>getValues_in_range\<close>).
  Outside the table the spec is silent; the definition takes the list slice
  \<^verbatim>\<open>values[address : address + count]\<close> of pymodbus 3.10.0 and 3.11.0, which is
  empty beyond the end. Later versions of the library refuse the address instead: the
  read fails there too, with another exception.
\<close>

definition getValues :: "pyval list \<Rightarrow> int \<Rightarrow> int \<Rightarrow> pyval list" where
  "getValues vals a count =
    (let start = slice_bound (length vals) a;
         stop = slice_bound (length vals) (a + count)
     in take (stop - start) (drop start vals))"

text \<open>
  Modelled from the spec: \<^verbatim>\<open>setValues(address, values)\<close> of the library's data
  block, which is missing from the sources. For an address inside the table it is the
  write of the spec's flat array: the cell at \<open>address\<close> gets the value and no other
  cell changes (lemma \<open>setValues_in_range\<close>). Outside the table the spec is silent;
  the definition takes the slice assignment
  \<^verbatim>\<open>values[address : address + len(values)] = values\<close> of pymodbus 3.10.0 and
  3.11.0, which appends at or beyond the end. Later versions of the library drop such a
  write. Only the two facts about a tag at address 150 use the definition outside the
  table.
\<close>

definition setValues :: "pyval list \<Rightarrow> int \<Rightarrow> pyval list \<Rightarrow> pyval list" where
  "setValues vals a new =
    (let start = slice_bound (length vals) a;
         stop = max start (slice_bound (length vals) (a + int (length new)))
     in take start vals @ new @ drop stop vals)"

text \<open>\<^verbatim>\<open>xs[0]\<close>\<close>

definition first_item :: "pyval list \<Rightarrow> py_error + pyval" where
  "first_item xs = (case xs of [] \<Rightarrow> Inl IndexError | x # _ \<Rightarrow> Inr x)"

record modbus_context =
  di_block :: "pyval list"
  co_block :: "pyval list"
  hr_block :: "pyval list"
  ir_block :: "pyval list"

text \<open>\<^verbatim>\<open>_create_modbus_context\<close>\<close>

definition create_modbus_context :: modbus_context where
  "create_modbus_context =
    \<lparr>di_block = replicate 100 (PyInt 0), co_block = replicate 100 (PyInt 0),
     hr_block = replicate 100 (PyInt 0), ir_block = replicate 100 (PyInt 0)\<rparr>"

subsection \<open>The bridge\<close>

record bridge =
  plant_type :: string
  map_file :: string
  ir_file :: string
  tag_mappings :: "(string \<times> tag_mapping) list"
  ir_data :: "ir_doc option"
  bridge_context :: modbus_context

text \<open>
  \<^verbatim>\<open>ModbusBridge.__init__\<close>, given the content of the two files (\<open>None\<close> for a
  file that does not exist): the printed messages, and the bridge or the exception.
\<close>

definition bridge_init ::
  "string \<Rightarrow> row list option \<Rightarrow> ir_doc option \<Rightarrow> message list \<times> (py_error + bridge)" where
  "bridge_init plant map_content ir_content =
    (let mf = ''maps/'' @ plant @ ''/modbus_map.csv'';
         irf = ''ir/'' @ plant @ ''_crossplc.json''
     in case load_modbus_map mf map_content of
          Inl e \<Rightarrow> ([], Inl e)
        | Inr mappings \<Rightarrow>
           (let (msgs1, ird) = load_ir_data irf ir_content;
                (msgs2, r) = validate_mappings mappings ird
            in case r of
                 Inl e \<Rightarrow> (msgs1 @ msgs2, Inl e)
               | Inr u \<Rightarrow>
                  (msgs1 @ msgs2,
                   Inr \<lparr>plant_type = plant, map_file = mf, ir_file = irf,
                        tag_mappings = mappings, ir_data = ird,
                        bridge_context = create_modbus_context\<rparr>)))"

text \<open>\<^verbatim>\<open>get_tag_value\<close>\<close>

definition get_tag_value :: "bridge \<Rightarrow> string \<Rightarrow> py_error + pyval" where
  "get_tag_value b tag_name =
    (case map_of (tag_mappings b) tag_name of
       None \<Rightarrow> Inl (ValueError (''Unknown tag: '' @ tag_name))
     | Some m \<Rightarrow>
        if \<not> List.member [''DI'', ''COIL'', ''HR'', ''IR''] (table m)
        then Inl (ValueError (''Unknown table: '' @ table m))
        else if table m = ''DI''
        then first_item (getValues (di_block (bridge_context b)) (address m) 1)
        else if table m = ''COIL''
        then first_item (getValues (co_block (bridge_context b)) (address m) 1)
        else if table m = ''HR''
        then first_item (getValues (hr_block (bridge_context b)) (address m) 1)
        else if table m = ''IR''
        then first_item (getValues (ir_block (bridge_context b)) (address m) 1)
        else Inr (PyInt 0))"

text \<open>
  \<^verbatim>\<open>set_tag_value\<close>: what the call does (\<open>Inr ()\<close> when it returns, \<open>Inl\<close> the
  exception it raises) and the bridge after the call.
\<close>

definition set_tag_value :: "string \<Rightarrow> pyval \<Rightarrow> bridge \<Rightarrow> (py_error + unit) \<times> bridge" where
  "set_tag_value tag_name v b =
    (case map_of (tag_mappings b) tag_name of
       None \<Rightarrow> (Inl (ValueError (''Unknown tag: '' @ tag_name)), b)
     | Some m \<Rightarrow>
        if table m = ''COIL''
        then (Inr (), b\<lparr>bridge_context := (bridge_context b)
                \<lparr>co_block := setValues (co_block (bridge_context b)) (address m) [v]\<rparr>\<rparr>)
        else if table m = ''HR''
        then (Inr (), b\<lparr>bridge_context := (bridge_context b)
                \<lparr>hr_block := setValues (hr_block (bridge_context b)) (address m) [v]\<rparr>\<rparr>)
        else (Inl (ValueError (''Cannot write to table: '' @ table m)), b))"

text \<open>The body of the loop of \<^verbatim>\<open>update_sensors\<close> for one item of the dictionary.\<close>

definition update_sensor :: "string \<times> pyval \<Rightarrow> bridge \<Rightarrow> bridge" where
  "update_sensor item b =
    (case map_of (tag_mappings b) (fst item) of
       None \<Rightarrow> b
     | Some m \<Rightarrow>
        if table m = ''DI''
        then b\<lparr>bridge_context := (bridge_context b)
               \<lparr>di_block := setValues (di_block (bridge_context b)) (address m) [snd item]\<rparr>\<rparr>
        else if table m = ''IR''
        then b\<lparr>bridge_context := (bridge_context b)
               \<lparr>ir_block := setValues (ir_block (bridge_context b)) (address m) [snd item]\<rparr>\<rparr>
        else b)"

text \<open>
  \<^verbatim>\<open>update_sensors\<close>, on the items of the dictionary in insertion order. No path
  of the method raises.
\<close>

definition update_sensors :: "(string \<times> pyval) list \<Rightarrow> bridge \<Rightarrow> (py_error + unit) \<times> bridge" where
  "update_sensors sensor_values b = (Inr (), fold update_sensor sensor_values b)"

text \<open>\<^verbatim>\<open>get_actuator_values\<close>\<close>

fun actuator_loop ::
  "bridge \<Rightarrow> (string \<times> tag_mapping) list \<Rightarrow> (string \<times> pyval) list \<Rightarrow>
   py_error + (string \<times> pyval) list" where
  "actuator_loop b [] actuator_values = Inr actuator_values"
| "actuator_loop b ((tag_name, m) # rest) actuator_values =
     (if role m = ''Actuator''
      then (case get_tag_value b tag_name of
              Inl e \<Rightarrow> Inl e
            | Inr v \<Rightarrow> actuator_loop b rest (dict_set tag_name v actuator_values))
      else actuator_loop b rest actuator_values)"

definition get_actuator_values :: "bridge \<Rightarrow> py_error + (string \<times> pyval) list" where
  "get_actuator_values b = actuator_loop b (tag_mappings b) []"

section \<open>Notions used to state the properties\<close>

text \<open>The register table a table name selects, as the accessors select it.\<close>

definition table_block :: "modbus_context \<Rightarrow> string \<Rightarrow> pyval list option" where
  "table_block c tb =
    (if tb = ''DI'' then Some (di_block c)
     else if tb = ''COIL'' then Some (co_block c)
     else if tb = ''HR'' then Some (hr_block c)
     else if tb = ''IR'' then Some (ir_block c)
     else None)"

text \<open>The address of a tag is the index of a cell of the tag's table.\<close>

definition address_in_table :: "bridge \<Rightarrow> tag_mapping \<Rightarrow> bool" where
  "address_in_table b m =
    (case table_block (bridge_context b) (table m) of
       None \<Rightarrow> False
     | Some vals \<Rightarrow> 0 \<le> address m \<and> address m < int (length vals))"







section \<open>Concrete plants and tag maps\<close>

definition bottle_at_130 :: bottle where
  "bottle_at_130 = bottle_init\<lparr>bottle_position := 130\<rparr>"

definition motor_only :: "string \<rightharpoonup> pyval" where
  "motor_only = [''ACT_MOTOR'' \<mapsto> PyBool True, ''ACT_NOZZLE'' \<mapsto> PyBool False]"

definition refinery_at_95 :: refinery where
  "refinery_at_95 = refinery_init\<lparr>tank_level := 95\<rparr>"

definition feed_pump_only :: "string \<rightharpoonup> pyval" where
  "feed_pump_only = [''ACT_FEED_PUMP'' \<mapsto> PyBool True]"

text \<open>A row of a tag map with the columns of \<^verbatim>\<open>modbus_map.csv\<close>.\<close>

definition map_row :: "string \<Rightarrow> string \<Rightarrow> string \<Rightarrow> string \<Rightarrow> string \<Rightarrow> row" where
  "map_row n ty tb a ro =
    [''name'' \<mapsto> n, ''type'' \<mapsto> ty, ''table'' \<mapsto> tb, ''address'' \<mapsto> a,
     ''width'' \<mapsto> ''1'', ''units'' \<mapsto> ''bool'', ''desc'' \<mapsto> ''tag'', ''role'' \<mapsto> ro]"

definition tag_of :: "string \<Rightarrow> string \<Rightarrow> int \<Rightarrow> string \<Rightarrow> tag_mapping" where
  "tag_of ty tb a ro =
    \<lparr>type = ty, table = tb, address = a, width = 1, units = ''bool'', desc = ''tag'', role = ro\<rparr>"

text \<open>A bridge as \<^verbatim>\<open>__init__\<close> leaves it, for the plant \<open>bottle\<close> with no IR file.\<close>

definition fresh_bridge :: "(string \<times> tag_mapping) list \<Rightarrow> bridge" where
  "fresh_bridge mappings =
    \<lparr>plant_type = ''bottle'', map_file = ''maps/bottle/modbus_map.csv'',
     ir_file = ''ir/bottle_crossplc.json'', tag_mappings = mappings, ir_data = None,
     bridge_context = create_modbus_context\<rparr>"

text \<open>Two actuators at the same coil.\<close>

definition colliding_rows :: "row list" where
  "colliding_rows =
    [map_row ''ACT_MOTOR'' ''BOOL'' ''COIL'' ''1'' ''Actuator'',
     map_row ''ACT_NOZZLE'' ''BOOL'' ''COIL'' ''1'' ''Actuator'']"

text \<open>A tag with the prefix of a sensor and the role of an actuator.\<close>

definition misdeclared_rows :: "row list" where
  "misdeclared_rows = [map_row ''SENSOR_LEVEL_SENSOR'' ''BOOL'' ''DI'' ''1'' ''Actuator'']"

text \<open>A small plant: one tag in each table, all inside the tables.\<close>

definition small_rows :: "row list" where
  "small_rows =
    [map_row ''SENSOR_LIMIT_SWITCH'' ''BOOL'' ''DI'' ''0'' ''Sensor'',
     map_row ''SENSOR_TANK_LEVEL'' ''INT'' ''IR'' ''3'' ''Sensor'',
     map_row ''ACT_MOTOR'' ''BOOL'' ''COIL'' ''1'' ''Actuator'',
     map_row ''CMD_SPEED'' ''INT'' ''HR'' ''2'' ''Command'']"

definition small_bridge :: bridge where
  "small_bridge = fresh_bridge
    [(''SENSOR_LIMIT_SWITCH'', tag_of ''BOOL'' ''DI'' 0 ''Sensor''),
     (''SENSOR_TANK_LEVEL'', tag_of ''INT'' ''IR'' 3 ''Sensor''),
     (''ACT_MOTOR'', tag_of ''BOOL'' ''COIL'' 1 ''Actuator''),
     (''CMD_SPEED'', tag_of ''INT'' ''HR'' 2 ''Command'')]"

text \<open>A plant whose addresses lie beyond the 100 cells of the tables.\<close>

definition far_rows :: "row list" where
  "far_rows =
    [map_row ''SENSOR_FAR'' ''BOOL'' ''DI'' ''150'' ''Sensor'',
     map_row ''SENSOR_NEXT'' ''BOOL'' ''DI'' ''100'' ''Sensor'',
     map_row ''ACT_FAR'' ''BOOL'' ''COIL'' ''150'' ''Actuator'']"

definition far_bridge :: bridge where
  "far_bridge = fresh_bridge
    [(''SENSOR_FAR'', tag_of ''BOOL'' ''DI'' 150 ''Sensor''),
     (''SENSOR_NEXT'', tag_of ''BOOL'' ''DI'' 100 ''Sensor''),
     (''ACT_FAR'', tag_of ''BOOL'' ''COIL'' 150 ''Actuator'')]"


section \<open>Refinery: the phase never leaves Idle\<close>

lemma phase_step_idle:
  "processing_phase s = 0 \<Longrightarrow> phase_step d ov sv wv s = s"
  by (simp add: phase_step_def)

lemma refinery_update_idle:
  assumes "processing_phase s = 0"
  shows "processing_phase (fst (refinery_update d inputs s)) = 0"
    and "oil_processed (fst (refinery_update d inputs s)) = oil_processed s"
  using assms
  by (simp_all add: refinery_update_def Let_def feed_step_def phase_step_def spill_step_def)

lemma refinery_run_idle:
  "processing_phase s = 0 \<Longrightarrow>
   processing_phase (refinery_run ticks s) = 0 \<and>
   oil_processed (refinery_run ticks s) = oil_processed s"
proof (induction ticks arbitrary: s)
  case Nil
  then show ?case by simp
next
  case (Cons tick ticks)
  obtain d inputs where tick: "tick = (d, inputs)" by (cases tick)
  let ?s = "fst (refinery_update d inputs s)"
  have "processing_phase ?s = 0" and "oil_processed ?s = oil_processed s"
    using Cons.prems by (rule refinery_update_idle)+
  with Cons.IH [of ?s] show ?case by (simp add: tick)
qed

text \<open>
  C2. The engine starts with \<^verbatim>\<open>processing_phase = 0\<close> and no branch of
  \<^verbatim>\<open>update\<close> leaves phase 0: after any sequence of ticks, whatever the steps and
  the inputs, the phase is still 0 and \<^verbatim>\<open>oil_processed\<close> is still 0, so the
  Processing and Emptying branches never run.
\<close>

theorem refinery_phase_stays_idle:
  "processing_phase (refinery_run ticks refinery_init) = 0 \<and>
   oil_processed (refinery_run ticks refinery_init) = 0"
proof -
  have "processing_phase refinery_init = 0" and "oil_processed refinery_init = 0"
    by (simp_all add: refinery_init_def)
  with refinery_run_idle [of refinery_init ticks] show ?thesis by simp
qed

section \<open>Refinery: overflow and spill\<close>

text \<open>
  The spill block is the last block of \<^verbatim>\<open>update\<close>, and it does what the rule
  says: a level above the capacity is cut to the capacity and the excess is added to
  \<^verbatim>\<open>oil_spilled\<close>. But the feed block has already cut the level to the capacity,
  and with a step \<open>dt \<ge> 0\<close> no phase raises the level: from a level within the
  capacity, no tick ever records a spill.
\<close>

lemma spill_step_overflow:
  "tank_level s > tank_capacity \<Longrightarrow>
   oil_spilled (spill_step s) = oil_spilled s + (tank_level s - tank_capacity) \<and>
   tank_level (spill_step s) = tank_capacity"
  by (simp add: spill_step_def Let_def)

lemma spill_step_no_overflow:
  "tank_level s \<le> tank_capacity \<Longrightarrow> spill_step s = s"
  by (simp add: spill_step_def)

lemma feed_step_le_capacity:
  "tank_level s \<le> tank_capacity \<Longrightarrow> tank_level (feed_step d on s) \<le> tank_capacity"
  by (simp add: feed_step_def)

lemma phase_step_le_capacity:
  "0 \<le> d \<Longrightarrow> tank_level s \<le> tank_capacity \<Longrightarrow>
   tank_level (phase_step d ov sv wv s) \<le> tank_capacity"
  by (auto simp add: phase_step_def Let_def k_processing_def k_relief_def tank_capacity_def min_def max_def)

lemma refinery_update_state:
  "fst (refinery_update d inputs s) =
   spill_step (phase_step d
     (truthy (dict_get inputs ''ACT_OUTLET_VALVE'' (PyBool False)))
     (truthy (dict_get inputs ''ACT_SEP_VALVE'' (PyBool False)))
     (truthy (dict_get inputs ''ACT_WASTE_VALVE'' (PyBool False)))
     (feed_step d (truthy (dict_get inputs ''ACT_FEED_PUMP'' (PyBool False)))
       (s\<lparr>refinery_state := \<lparr>time = time (refinery_state s) + d, dt = d\<rparr>\<rparr>)))"
  by (simp add: refinery_update_def Let_def)

lemma feed_step_spilled: "oil_spilled (feed_step d on s) = oil_spilled s"
  by (simp add: feed_step_def)

lemma phase_step_spilled: "oil_spilled (phase_step d ov sv wv s) = oil_spilled s"
  by (simp add: phase_step_def Let_def)

lemma refinery_update_never_spills:
  assumes "0 \<le> d" and "tank_level s \<le> tank_capacity"
  shows "oil_spilled (fst (refinery_update d inputs s)) = oil_spilled s"
    and "tank_level (fst (refinery_update d inputs s)) \<le> tank_capacity"
proof -
  let ?s1 = "s\<lparr>refinery_state := \<lparr>time = time (refinery_state s) + d, dt = d\<rparr>\<rparr>"
  let ?s2 = "feed_step d (truthy (dict_get inputs ''ACT_FEED_PUMP'' (PyBool False))) ?s1"
  let ?s3 = "phase_step d
     (truthy (dict_get inputs ''ACT_OUTLET_VALVE'' (PyBool False)))
     (truthy (dict_get inputs ''ACT_SEP_VALVE'' (PyBool False)))
     (truthy (dict_get inputs ''ACT_WASTE_VALVE'' (PyBool False))) ?s2"
  have "tank_level ?s1 \<le> tank_capacity" using assms(2) by simp
  then have "tank_level ?s2 \<le> tank_capacity" by (rule feed_step_le_capacity)
  with assms(1) have le: "tank_level ?s3 \<le> tank_capacity" by (rule phase_step_le_capacity)
  then have eq: "fst (refinery_update d inputs s) = ?s3"
    by (simp add: refinery_update_state spill_step_no_overflow)
  show "oil_spilled (fst (refinery_update d inputs s)) = oil_spilled s"
    unfolding eq by (simp add: phase_step_spilled feed_step_spilled)
  show "tank_level (fst (refinery_update d inputs s)) \<le> tank_capacity"
    unfolding eq by (rule le)
qed

lemma refinery_run_never_spills:
  assumes "list_all (\<lambda>tick. 0 \<le> fst tick) ticks" and "tank_level s \<le> tank_capacity"
  shows "oil_spilled (refinery_run ticks s) = oil_spilled s"
  using assms
proof (induction ticks arbitrary: s)
  case Nil
  then show ?case by simp
next
  case (Cons tick ticks)
  obtain d inputs where tick: "tick = (d, inputs)" by (cases tick)
  let ?s = "fst (refinery_update d inputs s)"
  have d: "0 \<le> d" and rest: "list_all (\<lambda>tick. 0 \<le> fst tick) ticks"
    using Cons.prems(1) by (simp_all add: tick)
  have "oil_spilled ?s = oil_spilled s" and "tank_level ?s \<le> tank_capacity"
    using d Cons.prems(2) by (rule refinery_update_never_spills)+
  with Cons.IH [OF rest, of ?s] show ?case by (simp add: tick)
qed

lemma refinery_never_spills_from_start:
  "list_all (\<lambda>tick. 0 \<le> fst tick) ticks \<Longrightarrow>
   oil_spilled (refinery_run ticks refinery_init) = 0"
  using refinery_run_never_spills [of ticks refinery_init]
  by (simp add: refinery_init_def tank_capacity_def)

text \<open>
  C1. The scenario of the claim: the tick starts at level 95 with capacity 100, the feed
  pump is on and \<open>k_feed * dt = 6 > 5\<close>. The claim expects \<open>spilled > 0\<close> and
  \<open>level = 100\<close> after the tick; the code ends the tick at level 100 with nothing
  spilled.
\<close>

theorem refinery_overflow_tick_records_no_spill:
  "tank_level refinery_at_95 = 95 \<and> k_feed * 30 > 5 \<and>
   truthy (dict_get feed_pump_only ''ACT_FEED_PUMP'' (PyBool False)) \<and>
   tank_level (fst (refinery_update 30 feed_pump_only refinery_at_95)) = 100 \<and>
   oil_spilled (fst (refinery_update 30 feed_pump_only refinery_at_95)) = 0"
  by (simp add: refinery_update_def Let_def feed_step_def phase_step_def spill_step_def
      refinery_at_95_def refinery_init_def feed_pump_only_def dict_get_def
      k_feed_def tank_capacity_def)

section \<open>Bottle: ten ticks of the conveyor\<close>

lemma bottle_update_conveyor:
  assumes motor: "truthy (dict_get inputs ''ACT_MOTOR'' (PyBool False))"
      and nozzle: "\<not> truthy (dict_get inputs ''ACT_NOZZLE'' (PyBool False))"
      and level: "bottle_level s = 0"
      and bound: "bottle_position s + 0.25 * d \<le> 600"
  shows "bottle_position (fst (bottle_update d inputs s)) = bottle_position s + 0.25 * d"
    and "bottle_level (fst (bottle_update d inputs s)) = 0"
  using assms by (simp_all add: bottle_update_def Let_def)

lemma bottle_run_conveyor:
  assumes motor: "truthy (dict_get inputs ''ACT_MOTOR'' (PyBool False))"
      and nozzle: "\<not> truthy (dict_get inputs ''ACT_NOZZLE'' (PyBool False))"
      and step: "0 \<le> d"
  shows "bottle_level s = 0 \<Longrightarrow> bottle_position s + real n * (0.25 * d) \<le> 600 \<Longrightarrow>
         bottle_position (bottle_run n d inputs s) = bottle_position s + real n * (0.25 * d) \<and>
         bottle_level (bottle_run n d inputs s) = 0"
proof (induction n arbitrary: s)
  case 0
  then show ?case by simp
next
  case (Suc n)
  let ?s = "fst (bottle_update d inputs s)"
  define e where "e = 0.25 * d"
  have e: "0 \<le> e" using step by (simp add: e_def)
  have split: "real (Suc n) * e = e + real n * e" by (simp add: algebra_simps)
  have "0 \<le> real n * e" using e by simp
  with Suc.prems(2) split have b: "bottle_position s + 0.25 * d \<le> 600"
    unfolding e_def [symmetric] by linarith
  have pos: "bottle_position ?s = bottle_position s + e"
    and lev: "bottle_level ?s = 0"
    using bottle_update_conveyor [OF motor nozzle Suc.prems(1) b] by (simp_all add: e_def)
  have "bottle_position ?s + real n * e \<le> 600"
    using Suc.prems(2) split unfolding e_def [symmetric] pos by linarith
  from Suc.IH [OF lev this [unfolded e_def]] show ?case
    using split unfolding e_def [symmetric] pos by simp
qed

text \<open>
  C3 (as amended). Starting at position 130 and level 0, with the motor on and the
  nozzle off, ten ticks of \<open>dt = 0.02\<close> move the bottle by \<open>10 * 0.25 * 0.02 = 0.05\<close>:
  the position is 130.05 and the level is still 0.
\<close>

theorem bottle_ten_ticks:
  assumes "bottle_position s = 130" and "bottle_level s = 0"
      and "truthy (dict_get inputs ''ACT_MOTOR'' (PyBool False))"
      and "\<not> truthy (dict_get inputs ''ACT_NOZZLE'' (PyBool False))"
  shows "bottle_position (bottle_run 10 0.02 inputs s) = 130.05 \<and>
         bottle_level (bottle_run 10 0.02 inputs s) = 0"
  using bottle_run_conveyor [OF assms(3) assms(4), of "0.02" s 10] assms(1,2)
  by simp

theorem bottle_ten_ticks_witness:
  "bottle_position bottle_at_130 = 130 \<and> bottle_level bottle_at_130 = 0 \<and>
   truthy (dict_get motor_only ''ACT_MOTOR'' (PyBool False)) \<and>
   \<not> truthy (dict_get motor_only ''ACT_NOZZLE'' (PyBool False)) \<and>
   bottle_position (bottle_run 10 0.02 motor_only bottle_at_130) = 130.05 \<and>
   bottle_level (bottle_run 10 0.02 motor_only bottle_at_130) = 0"
  using bottle_ten_ticks [of bottle_at_130 motor_only]
  by (simp add: bottle_at_130_def motor_only_def bottle_init_def dict_get_def)

text \<open>The position after the ten ticks is not the 130.5 of the claim.\<close>

theorem bottle_ten_ticks_not_130_5:
  "bottle_position (bottle_run 10 0.02 motor_only bottle_at_130) \<noteq> 130.5"
proof -
  have "bottle_position (bottle_run 10 0.02 motor_only bottle_at_130) = 130.05"
    using bottle_run_conveyor [of motor_only "0.02" bottle_at_130 10]
    by (simp add: bottle_at_130_def motor_only_def bottle_init_def dict_get_def)
  then show ?thesis by simp
qed

section \<open>Register tables: reads and writes of one cell\<close>

lemma setValues_in_range:
  assumes "0 \<le> a" and "a < int (length vals)"
  shows "setValues vals a [v] = vals[nat a := v]"
proof -
  have n: "nat a < length vals" using assms by linarith
  have start: "slice_bound (length vals) a = nat a"
    using assms n by (simp add: slice_bound_def)
  have stop: "slice_bound (length vals) (a + 1) = Suc (nat a)"
    using assms n by (simp add: slice_bound_def nat_add_distrib)
  show ?thesis
    using n by (simp add: setValues_def Let_def start stop upd_conv_take_nth_drop)
qed

lemma getValues_in_range:
  assumes "0 \<le> a" and "a < int (length vals)"
  shows "getValues vals a 1 = [vals ! nat a]"
proof -
  have n: "nat a < length vals" using assms by linarith
  have start: "slice_bound (length vals) a = nat a"
    using assms n by (simp add: slice_bound_def)
  have stop: "slice_bound (length vals) (a + 1) = Suc (nat a)"
    using assms n by (simp add: slice_bound_def nat_add_distrib)
  have "take 1 (drop (nat a) vals) = [vals ! nat a]"
    using n by (simp add: Cons_nth_drop_Suc [symmetric])
  then show ?thesis
    by (simp add: getValues_def Let_def start stop)
qed

lemma setValues_beyond:
  assumes "int (length vals) \<le> a"
  shows "setValues vals a [v] = vals @ [v]"
  using assms by (simp add: setValues_def Let_def slice_bound_def)

lemma getValues_beyond:
  assumes "int (length vals) \<le> a"
  shows "getValues vals a 1 = []"
  using assms by (simp add: getValues_def Let_def slice_bound_def)


lemma read_after_write_block:
  assumes "0 \<le> a" and "a < int (length vals)"
  shows "first_item (getValues (setValues vals a [v]) a 1) = Inr v"
proof -
  have n: "nat a < length vals" using assms by linarith
  have "getValues (vals[nat a := v]) a 1 = [vals[nat a := v] ! nat a]"
    using assms by (intro getValues_in_range) simp_all
  then show ?thesis
    using n by (simp add: setValues_in_range [OF assms] first_item_def)
qed

lemma read_after_write_beyond:
  assumes "int (length vals) < a"
  shows "first_item (getValues (setValues vals a [v]) a 1) = Inl IndexError"
proof -
  have "setValues vals a [v] = vals @ [v]"
    using assms by (simp add: setValues_beyond)
  moreover have "getValues (vals @ [v]) a 1 = []"
    using assms by (intro getValues_beyond) simp
  ultimately show ?thesis by (simp add: first_item_def)
qed

section \<open>Loading and validating a tag map\<close>

lemma py_int_literals:
  "py_int ''0'' = Inr 0" "py_int ''1'' = Inr 1" "py_int ''2'' = Inr 2" "py_int ''3'' = Inr 3"
  "py_int ''100'' = Inr 100" "py_int ''150'' = Inr 150"
  by (simp_all add: py_int_def strip_def is_space_def is_digit_def digit_val_def)

lemma load_row_map_row:
  "py_int a = Inr i \<Longrightarrow> load_row (map_row n ty tb a ro) = Inr (n, tag_of ty tb i ro)"
  by (simp add: load_row_def map_row_def row_get_def and_then_def tag_of_def py_int_literals)

lemma validate_mappings_no_ir:
  "validate_mappings mappings None = ([Warning_skipping_IR_validation], Inr ())"
  by (simp add: validate_mappings_def)

lemma bridge_init_no_ir:
  "load_rows rows [] = Inr mappings \<Longrightarrow>
   bridge_init ''bottle'' (Some rows) None =
     ([Warning_IR_file_not_found ''ir/bottle_crossplc.json'', Warning_skipping_IR_validation],
      Inr (fresh_bridge mappings))"
  by (simp add: bridge_init_def Let_def load_modbus_map_def load_ir_data_def
      validate_mappings_no_ir fresh_bridge_def)

lemma load_colliding_rows:
  "load_rows colliding_rows [] =
     Inr [(''ACT_MOTOR'', tag_of ''BOOL'' ''COIL'' 1 ''Actuator''),
          (''ACT_NOZZLE'', tag_of ''BOOL'' ''COIL'' 1 ''Actuator'')]"
  by (simp add: colliding_rows_def load_row_map_row py_int_literals)

text \<open>
  C4. The claim: a tag map in which two tags share a (table, address) pair fails to load,
  and no loaded map has two tags at one (table, address). The loader has no such check:
  the two actuators of \<open>colliding_rows\<close>, both at coil 1, load, and the bridge is
  created with both.
\<close>

theorem load_accepts_colliding_addresses:
  "load_modbus_map ''maps/bottle/modbus_map.csv'' (Some colliding_rows) =
     Inr [(''ACT_MOTOR'', tag_of ''BOOL'' ''COIL'' 1 ''Actuator''),
          (''ACT_NOZZLE'', tag_of ''BOOL'' ''COIL'' 1 ''Actuator'')] \<and>
   snd (bridge_init ''bottle'' (Some colliding_rows) None) =
     Inr (fresh_bridge [(''ACT_MOTOR'', tag_of ''BOOL'' ''COIL'' 1 ''Actuator''),
                        (''ACT_NOZZLE'', tag_of ''BOOL'' ''COIL'' 1 ''Actuator'')]) \<and>
   table (tag_of ''BOOL'' ''COIL'' 1 ''Actuator'') = ''COIL'' \<and>
   address (tag_of ''BOOL'' ''COIL'' 1 ''Actuator'') = 1"
  by (simp add: load_modbus_map_def load_colliding_rows bridge_init_no_ir tag_of_def)

lemma load_misdeclared_rows:
  "load_rows misdeclared_rows [] =
     Inr [(''SENSOR_LEVEL_SENSOR'', tag_of ''BOOL'' ''DI'' 1 ''Actuator'')]"
  by (simp add: misdeclared_rows_def load_row_map_row py_int_literals)

text \<open>
  C5. The claim: a tag whose prefix asks for another role than the declared one stops
  the start before any store is created. The check of the roles sits at the end of
  \<^verbatim>\<open>_validate_mappings\<close>, behind the early return taken when there is no IR data:
  without an IR file, the tag \<open>SENSOR_LEVEL_SENSOR\<close> declared as an actuator loads
  and the bridge is created with its store.
\<close>

theorem misdeclared_role_loads_without_ir:
  "startswith ''SENSOR_LEVEL_SENSOR'' ''SENSOR_'' \<and>
   role (tag_of ''BOOL'' ''DI'' 1 ''Actuator'') \<noteq> ''Sensor'' \<and>
   bridge_init ''bottle'' (Some misdeclared_rows) None =
     ([Warning_IR_file_not_found ''ir/bottle_crossplc.json'', Warning_skipping_IR_validation],
      Inr (fresh_bridge [(''SENSOR_LEVEL_SENSOR'', tag_of ''BOOL'' ''DI'' 1 ''Actuator'')]))"
  by (simp add: load_misdeclared_rows bridge_init_no_ir startswith_def tag_of_def)

lemma misdeclared_role_loads_with_empty_ir:
  "snd (bridge_init ''bottle'' (Some misdeclared_rows)
          (Some \<lparr>detailed_components = None, other_keys = []\<rparr>)) =
     Inr ((fresh_bridge [(''SENSOR_LEVEL_SENSOR'', tag_of ''BOOL'' ''DI'' 1 ''Actuator'')])
            \<lparr>ir_data := Some \<lparr>detailed_components = None, other_keys = []\<rparr>\<rparr>)"
  by (simp add: bridge_init_def Let_def load_modbus_map_def load_misdeclared_rows
      load_ir_data_def validate_mappings_def ir_data_falsy_def fresh_bridge_def)

lemma validate_roles_violation:
  "(t, m) \<in> set mappings \<Longrightarrow> \<not> snd (validate_tag_role t m) \<Longrightarrow>
   snd (validate_roles mappings) = Inl (SystemExit 1)"
proof (induction mappings)
  case Nil
  then show ?case by simp
next
  case (Cons p mappings)
  obtain t' m' where p: "p = (t', m')" by (cases p)
  obtain msgs ok where head: "validate_tag_role t' m' = (msgs, ok)"
    by (cases "validate_tag_role t' m'")
  obtain msgs' r where rest: "validate_roles mappings = (msgs', r)"
    by (cases "validate_roles mappings")
  show ?case
  proof (cases ok)
    case False
    then show ?thesis by (simp add: p head)
  next
    case True
    with Cons.prems p head have "(t, m) \<in> set mappings" by auto
    from Cons.IH [OF this Cons.prems(2)] True show ?thesis
      by (simp add: p head rest)
  qed
qed

lemma validate_tag_role_violation:
  "(startswith t ''SENSOR_'' \<and> role m \<noteq> ''Sensor'') \<or>
   (startswith t ''ACT_'' \<and> role m \<noteq> ''Actuator'') \<or>
   (startswith t ''CMD_'' \<and> role m \<noteq> ''Command'') \<Longrightarrow>
   \<not> snd (validate_tag_role t m)"
  by (auto simp add: validate_tag_role_def)

lemma role_violation_exits_with_ir:
  assumes load: "load_rows rows [] = Inr mappings"
      and ir: "\<not> ir_data_falsy (Some doc)"
      and tag: "(t, m) \<in> set mappings"
      and bad: "(startswith t ''SENSOR_'' \<and> role m \<noteq> ''Sensor'') \<or>
                (startswith t ''ACT_'' \<and> role m \<noteq> ''Actuator'') \<or>
                (startswith t ''CMD_'' \<and> role m \<noteq> ''Command'')"
  shows "snd (bridge_init plant (Some rows) (Some doc)) = Inl (SystemExit 1)"
proof -
  obtain msgs r where roles: "validate_roles mappings = (msgs, r)"
    by (cases "validate_roles mappings")
  have "snd (validate_roles mappings) = Inl (SystemExit 1)"
    using tag validate_tag_role_violation [OF bad] by (rule validate_roles_violation)
  with roles have "r = Inl (SystemExit 1)" by simp
  with roles ir have "snd (validate_mappings mappings (Some doc)) = Inl (SystemExit 1)"
    by (simp add: validate_mappings_def Let_def)
  then show ?thesis
    using load
    by (cases "validate_mappings mappings (Some doc)")
       (simp add: bridge_init_def Let_def load_modbus_map_def load_ir_data_def)
qed

lemma misdeclared_role_exits_with_ir:
  "snd (bridge_init ''bottle'' (Some misdeclared_rows)
          (Some \<lparr>detailed_components = Some [], other_keys = []\<rparr>)) = Inl (SystemExit 1)"
proof (rule role_violation_exits_with_ir [OF load_misdeclared_rows])
  show "\<not> ir_data_falsy (Some \<lparr>detailed_components = Some [], other_keys = []\<rparr>)"
    by (simp add: ir_data_falsy_def)
  show "(''SENSOR_LEVEL_SENSOR'', tag_of ''BOOL'' ''DI'' 1 ''Actuator'')
          \<in> set [(''SENSOR_LEVEL_SENSOR'', tag_of ''BOOL'' ''DI'' 1 ''Actuator'')]"
    by simp
  show "(startswith ''SENSOR_LEVEL_SENSOR'' ''SENSOR_'' \<and>
           role (tag_of ''BOOL'' ''DI'' 1 ''Actuator'') \<noteq> ''Sensor'') \<or>
        (startswith ''SENSOR_LEVEL_SENSOR'' ''ACT_'' \<and>
           role (tag_of ''BOOL'' ''DI'' 1 ''Actuator'') \<noteq> ''Actuator'') \<or>
        (startswith ''SENSOR_LEVEL_SENSOR'' ''CMD_'' \<and>
           role (tag_of ''BOOL'' ''DI'' 1 ''Actuator'') \<noteq> ''Command'')"
    by (simp add: startswith_def tag_of_def)
qed

section \<open>Errors of the accessors\<close>

lemma get_tag_value_unknown:
  "map_of (tag_mappings b) t = None \<Longrightarrow>
   get_tag_value b t = Inl (ValueError (''Unknown tag: '' @ t))"
  by (simp add: get_tag_value_def)

lemma set_tag_value_unknown:
  "map_of (tag_mappings b) t = None \<Longrightarrow>
   set_tag_value t v b = (Inl (ValueError (''Unknown tag: '' @ t)), b)"
  by (simp add: set_tag_value_def)

lemma set_tag_value_not_writable:
  "map_of (tag_mappings b) t = Some m \<Longrightarrow> table m \<noteq> ''COIL'' \<Longrightarrow> table m \<noteq> ''HR'' \<Longrightarrow>
   set_tag_value t v b = (Inl (ValueError (''Cannot write to table: '' @ table m)), b)"
  by (simp add: set_tag_value_def)

lemma set_tag_value_writable:
  "map_of (tag_mappings b) t = Some m \<Longrightarrow> table m = ''COIL'' \<or> table m = ''HR'' \<Longrightarrow>
   fst (set_tag_value t v b) = Inr ()"
  by (auto simp add: set_tag_value_def)

lemma set_tag_value_returns:
  "fst (set_tag_value t v b) = Inr () \<Longrightarrow>
   \<exists>m. map_of (tag_mappings b) t = Some m \<and> (table m = ''COIL'' \<or> table m = ''HR'')"
  by (auto simp add: set_tag_value_def split: option.splits if_splits)

lemma update_sensor_unknown:
  "map_of (tag_mappings b) t = None \<Longrightarrow> update_sensor (t, v) b = b"
  by (simp add: update_sensor_def)

lemma update_sensor_other_table:
  "map_of (tag_mappings b) t = Some m \<Longrightarrow> table m \<noteq> ''DI'' \<Longrightarrow> table m \<noteq> ''IR'' \<Longrightarrow>
   update_sensor (t, v) b = b"
  by (simp add: update_sensor_def)

text \<open>
  C6 (as amended). A read or a write with an unknown tag name raises \<^verbatim>\<open>ValueError\<close>
  to the caller, and so does a write to a tag of the table \<open>DI\<close> or \<open>IR\<close>; the
  bridge is left as it was. \<^verbatim>\<open>update_sensors\<close> raises nothing for an unknown tag
  name: it skips the entry and returns.
\<close>

theorem access_errors_of_read_and_write:
  "(map_of (tag_mappings b) t = None \<longrightarrow>
      get_tag_value b t = Inl (ValueError (''Unknown tag: '' @ t)) \<and>
      set_tag_value t v b = (Inl (ValueError (''Unknown tag: '' @ t)), b) \<and>
      update_sensors [(t, v)] b = (Inr (), b)) \<and>
   (\<forall>m. map_of (tag_mappings b) t = Some m \<and> (table m = ''DI'' \<or> table m = ''IR'') \<longrightarrow>
      set_tag_value t v b = (Inl (ValueError (''Cannot write to table: '' @ table m)), b))"
proof (intro conjI impI allI)
  assume unknown: "map_of (tag_mappings b) t = None"
  then show "get_tag_value b t = Inl (ValueError (''Unknown tag: '' @ t))"
    by (rule get_tag_value_unknown)
  from unknown show "set_tag_value t v b = (Inl (ValueError (''Unknown tag: '' @ t)), b)"
    by (rule set_tag_value_unknown)
  from unknown show "update_sensors [(t, v)] b = (Inr (), b)"
    by (simp add: update_sensors_def update_sensor_unknown)
next
  fix m
  assume "map_of (tag_mappings b) t = Some m \<and> (table m = ''DI'' \<or> table m = ''IR'')"
  then show "set_tag_value t v b = (Inl (ValueError (''Cannot write to table: '' @ table m)), b)"
    by (intro set_tag_value_not_writable) auto
qed

lemma small_bridge_tags:
  "map_of (tag_mappings small_bridge) ''NO_SUCH_TAG'' = None"
  "map_of (tag_mappings small_bridge) ''SENSOR_LIMIT_SWITCH'' = Some (tag_of ''BOOL'' ''DI'' 0 ''Sensor'')"
  "map_of (tag_mappings small_bridge) ''SENSOR_TANK_LEVEL'' = Some (tag_of ''INT'' ''IR'' 3 ''Sensor'')"
  "map_of (tag_mappings small_bridge) ''ACT_MOTOR'' = Some (tag_of ''BOOL'' ''COIL'' 1 ''Actuator'')"
  "map_of (tag_mappings small_bridge) ''CMD_SPEED'' = Some (tag_of ''INT'' ''HR'' 2 ''Command'')"
  by (simp_all add: small_bridge_def fresh_bridge_def)

lemma table_tag_of [simp]: "table (tag_of ty tb a ro) = tb"
  by (simp add: tag_of_def)

lemma address_tag_of [simp]: "address (tag_of ty tb a ro) = a"
  by (simp add: tag_of_def)

text \<open>The small plant: an unknown name, and a write to the discrete input.\<close>

theorem access_errors_of_read_and_write_witness:
  "map_of (tag_mappings small_bridge) ''NO_SUCH_TAG'' = None \<and>
   get_tag_value small_bridge ''NO_SUCH_TAG'' = Inl (ValueError ''Unknown tag: NO_SUCH_TAG'') \<and>
   set_tag_value ''NO_SUCH_TAG'' (PyInt 1) small_bridge =
     (Inl (ValueError ''Unknown tag: NO_SUCH_TAG''), small_bridge) \<and>
   map_of (tag_mappings small_bridge) ''SENSOR_LIMIT_SWITCH'' =
     Some (tag_of ''BOOL'' ''DI'' 0 ''Sensor'') \<and>
   set_tag_value ''SENSOR_LIMIT_SWITCH'' (PyBool True) small_bridge =
     (Inl (ValueError ''Cannot write to table: DI''), small_bridge)"
  using access_errors_of_read_and_write [of small_bridge "''NO_SUCH_TAG''" "PyInt 1"]
        access_errors_of_read_and_write [of small_bridge "''SENSOR_LIMIT_SWITCH''" "PyBool True"]
  by (simp add: small_bridge_tags)

text \<open>
  The claim as stated fails for \<^verbatim>\<open>update_sensors\<close>: an unknown tag name raises
  nothing and changes nothing.
\<close>

theorem update_sensors_swallows_unknown_tag:
  "map_of (tag_mappings small_bridge) ''NO_SUCH_TAG'' = None \<and>
   update_sensors [(''NO_SUCH_TAG'', PyInt 1)] small_bridge = (Inr (), small_bridge)"
  by (simp add: small_bridge_tags update_sensors_def update_sensor_unknown)

text \<open>
  C7. For a registered tag of the table \<open>DI\<close> or \<open>IR\<close>, \<^verbatim>\<open>set_tag_value\<close>
  raises \<^verbatim>\<open>ValueError\<close> (``Cannot write to table'') and leaves the bridge, and so
  the store, unchanged; the call returns exactly for the registered tags of the tables
  \<open>COIL\<close> and \<open>HR\<close>.
\<close>

theorem write_to_read_only_table:
  "(\<forall>m. map_of (tag_mappings b) t = Some m \<and> (table m = ''DI'' \<or> table m = ''IR'') \<longrightarrow>
      set_tag_value t v b = (Inl (ValueError (''Cannot write to table: '' @ table m)), b)) \<and>
   (fst (set_tag_value t v b) = Inr () \<longleftrightarrow>
      (\<exists>m. map_of (tag_mappings b) t = Some m \<and> (table m = ''COIL'' \<or> table m = ''HR'')))"
proof (intro conjI allI impI iffI)
  fix m
  assume "map_of (tag_mappings b) t = Some m \<and> (table m = ''DI'' \<or> table m = ''IR'')"
  then show "set_tag_value t v b = (Inl (ValueError (''Cannot write to table: '' @ table m)), b)"
    by (intro set_tag_value_not_writable) auto
next
  assume "fst (set_tag_value t v b) = Inr ()"
  then show "\<exists>m. map_of (tag_mappings b) t = Some m \<and> (table m = ''COIL'' \<or> table m = ''HR'')"
    by (rule set_tag_value_returns)
next
  assume "\<exists>m. map_of (tag_mappings b) t = Some m \<and> (table m = ''COIL'' \<or> table m = ''HR'')"
  then show "fst (set_tag_value t v b) = Inr ()"
    by (auto intro: set_tag_value_writable)
qed

text \<open>The small plant: a write to the input register fails, a write to the holding register returns.\<close>

theorem write_to_read_only_table_witness:
  "map_of (tag_mappings small_bridge) ''SENSOR_TANK_LEVEL'' =
     Some (tag_of ''INT'' ''IR'' 3 ''Sensor'') \<and>
   set_tag_value ''SENSOR_TANK_LEVEL'' (PyInt 50) small_bridge =
     (Inl (ValueError ''Cannot write to table: IR''), small_bridge) \<and>
   map_of (tag_mappings small_bridge) ''CMD_SPEED'' = Some (tag_of ''INT'' ''HR'' 2 ''Command'') \<and>
   fst (set_tag_value ''CMD_SPEED'' (PyInt 50) small_bridge) = Inr ()"
  using write_to_read_only_table [of small_bridge "''SENSOR_TANK_LEVEL''" "PyInt 50"]
        write_to_read_only_table [of small_bridge "''CMD_SPEED''" "PyInt 50"]
  by (simp add: small_bridge_tags)

section \<open>Write and read, and the sensor bypass\<close>

lemma far_bridge_tags:
  "map_of (tag_mappings far_bridge) ''SENSOR_FAR'' = Some (tag_of ''BOOL'' ''DI'' 150 ''Sensor'')"
  "map_of (tag_mappings far_bridge) ''SENSOR_NEXT'' = Some (tag_of ''BOOL'' ''DI'' 100 ''Sensor'')"
  "map_of (tag_mappings far_bridge) ''ACT_FAR'' = Some (tag_of ''BOOL'' ''COIL'' 150 ''Actuator'')"
  by (simp_all add: far_bridge_def fresh_bridge_def)

lemma fresh_bridge_blocks:
  "di_block (bridge_context (fresh_bridge ms)) = replicate 100 (PyInt 0)"
  "co_block (bridge_context (fresh_bridge ms)) = replicate 100 (PyInt 0)"
  "hr_block (bridge_context (fresh_bridge ms)) = replicate 100 (PyInt 0)"
  "ir_block (bridge_context (fresh_bridge ms)) = replicate 100 (PyInt 0)"
  by (simp_all add: fresh_bridge_def create_modbus_context_def)

lemma far_bridge_blocks:
  "di_block (bridge_context far_bridge) = replicate 100 (PyInt 0)"
  "co_block (bridge_context far_bridge) = replicate 100 (PyInt 0)"
  by (simp_all add: far_bridge_def fresh_bridge_blocks)

lemma small_bridge_in_table:
  "address_in_table small_bridge (tag_of ''BOOL'' ''DI'' 0 ''Sensor'')"
  "address_in_table small_bridge (tag_of ''INT'' ''IR'' 3 ''Sensor'')"
  "address_in_table small_bridge (tag_of ''BOOL'' ''COIL'' 1 ''Actuator'')"
  "address_in_table small_bridge (tag_of ''INT'' ''HR'' 2 ''Command'')"
  by (simp_all add: address_in_table_def table_block_def small_bridge_def fresh_bridge_blocks)

lemma far_rows_loaded:
  "snd (bridge_init ''bottle'' (Some far_rows) None) = Inr far_bridge"
proof -
  have "load_rows far_rows [] = Inr (tag_mappings far_bridge)"
    by (simp add: far_rows_def far_bridge_def fresh_bridge_def load_row_map_row py_int_literals)
  then show ?thesis
    by (simp add: bridge_init_no_ir far_bridge_def fresh_bridge_def)
qed

lemma small_rows_loaded:
  "snd (bridge_init ''bottle'' (Some small_rows) None) = Inr small_bridge"
proof -
  have "load_rows small_rows [] = Inr (tag_mappings small_bridge)"
    by (simp add: small_rows_def small_bridge_def fresh_bridge_def load_row_map_row py_int_literals)
  then show ?thesis
    by (simp add: bridge_init_no_ir small_bridge_def fresh_bridge_def)
qed

lemma get_tag_value_table:
  assumes "map_of (tag_mappings b) t = Some m"
      and "table_block (bridge_context b) (table m) = Some vals"
  shows "get_tag_value b t = first_item (getValues vals (address m) 1)"
  using assms
  by (auto simp add: get_tag_value_def table_block_def split: if_splits)

text \<open>
  C9 (as amended). For a registered tag of the table \<open>COIL\<close> or \<open>HR\<close> whose
  address is a cell of its table, and for every value, \<^verbatim>\<open>set_tag_value\<close> returns
  and \<^verbatim>\<open>get_tag_value\<close> then returns the value written.
\<close>

theorem write_read_round_trip:
  assumes reg: "map_of (tag_mappings b) t = Some m"
      and tbl: "table m = ''COIL'' \<or> table m = ''HR''"
      and rng: "address_in_table b m"
  shows "fst (set_tag_value t v b) = Inr () \<and>
         get_tag_value (snd (set_tag_value t v b)) t = Inr v"
proof -
  let ?b = "snd (set_tag_value t v b)"
  have reg': "map_of (tag_mappings ?b) t = Some m"
    using reg by (simp add: set_tag_value_def)
  from tbl show ?thesis
  proof
    assume coil: "table m = ''COIL''"
    with rng have a: "0 \<le> address m" "address m < int (length (co_block (bridge_context b)))"
      by (simp_all add: address_in_table_def table_block_def)
    have "table_block (bridge_context ?b) (table m) =
            Some (setValues (co_block (bridge_context b)) (address m) [v])"
      using reg coil by (simp add: set_tag_value_def table_block_def)
    from get_tag_value_table [OF reg' this] read_after_write_block [OF a]
    show ?thesis using reg coil by (simp add: set_tag_value_def)
  next
    assume hr: "table m = ''HR''"
    with rng have a: "0 \<le> address m" "address m < int (length (hr_block (bridge_context b)))"
      by (simp_all add: address_in_table_def table_block_def)
    have "table_block (bridge_context ?b) (table m) =
            Some (setValues (hr_block (bridge_context b)) (address m) [v])"
      using reg hr by (simp add: set_tag_value_def table_block_def)
    from get_tag_value_table [OF reg' this] read_after_write_block [OF a]
    show ?thesis using reg hr by (simp add: set_tag_value_def)
  qed
qed

text \<open>The small plant: the motor coil.\<close>

theorem write_read_round_trip_witness:
  "map_of (tag_mappings small_bridge) ''ACT_MOTOR'' = Some (tag_of ''BOOL'' ''COIL'' 1 ''Actuator'') \<and>
   address_in_table small_bridge (tag_of ''BOOL'' ''COIL'' 1 ''Actuator'') \<and>
   fst (set_tag_value ''ACT_MOTOR'' (PyBool True) small_bridge) = Inr () \<and>
   get_tag_value (snd (set_tag_value ''ACT_MOTOR'' (PyBool True) small_bridge)) ''ACT_MOTOR'' =
     Inr (PyBool True)"
proof -
  have rng: "address_in_table small_bridge (tag_of ''BOOL'' ''COIL'' 1 ''Actuator'')"
    by (rule small_bridge_in_table)
  from write_read_round_trip [OF small_bridge_tags(4) _ rng, of "PyBool True"] rng
  show ?thesis by (simp add: small_bridge_tags)
qed

text \<open>
  The claim as stated fails for a registered coil beyond the 100 cells of the table: the
  write at address 150 returns (the value is appended to the list), and the read of the
  same tag raises \<^verbatim>\<open>IndexError\<close>.
\<close>

theorem write_read_beyond_table_fails:
  "map_of (tag_mappings far_bridge) ''ACT_FAR'' = Some (tag_of ''BOOL'' ''COIL'' 150 ''Actuator'') \<and>
   fst (set_tag_value ''ACT_FAR'' (PyBool True) far_bridge) = Inr () \<and>
   get_tag_value (snd (set_tag_value ''ACT_FAR'' (PyBool True) far_bridge)) ''ACT_FAR'' =
     Inl IndexError"
proof -
  let ?b = "snd (set_tag_value ''ACT_FAR'' (PyBool True) far_bridge)"
  have reg: "map_of (tag_mappings ?b) ''ACT_FAR'' = Some (tag_of ''BOOL'' ''COIL'' 150 ''Actuator'')"
    by (simp add: set_tag_value_def far_bridge_tags)
  have blk: "table_block (bridge_context ?b) (table (tag_of ''BOOL'' ''COIL'' 150 ''Actuator'')) =
          Some (setValues (replicate 100 (PyInt 0)) 150 [PyBool True])"
    by (simp add: set_tag_value_def far_bridge_tags table_block_def far_bridge_blocks)
  have "first_item (getValues (setValues (replicate 100 (PyInt 0)) 150 [PyBool True]) 150 1) =
          Inl IndexError"
    by (rule read_after_write_beyond) simp
  with get_tag_value_table [OF reg blk] show ?thesis
    by (simp add: far_bridge_tags set_tag_value_def)
qed

text \<open>
  C8 (as amended). For every registered tag of the table \<open>DI\<close> and every value,
  \<^verbatim>\<open>update_sensors\<close> with that one entry returns, while \<^verbatim>\<open>set_tag_value\<close>
  on the same tag raises \<^verbatim>\<open>ValueError\<close> and changes nothing; when the address of
  the tag is a cell of the table, a read of the tag after the update returns the value.
\<close>

theorem update_sensors_bypasses_write:
  assumes reg: "map_of (tag_mappings b) t = Some m"
      and tbl: "table m = ''DI''"
  shows "fst (update_sensors [(t, v)] b) = Inr () \<and>
         set_tag_value t v b = (Inl (ValueError ''Cannot write to table: DI''), b) \<and>
         (address_in_table b m \<longrightarrow>
            get_tag_value (snd (update_sensors [(t, v)] b)) t = Inr v)"
proof (intro conjI impI)
  show "fst (update_sensors [(t, v)] b) = Inr ()"
    by (simp add: update_sensors_def)
  show "set_tag_value t v b = (Inl (ValueError ''Cannot write to table: DI''), b)"
    using set_tag_value_not_writable [OF reg, of v] tbl by simp
next
  assume rng: "address_in_table b m"
  let ?b = "snd (update_sensors [(t, v)] b)"
  have reg': "map_of (tag_mappings ?b) t = Some m"
    using reg by (simp add: update_sensors_def update_sensor_def)
  from rng tbl have a: "0 \<le> address m" "address m < int (length (di_block (bridge_context b)))"
    by (simp_all add: address_in_table_def table_block_def)
  have "table_block (bridge_context ?b) (table m) =
          Some (setValues (di_block (bridge_context b)) (address m) [v])"
    using reg tbl by (simp add: update_sensors_def update_sensor_def table_block_def)
  from get_tag_value_table [OF reg' this] read_after_write_block [OF a]
  show "get_tag_value ?b t = Inr v" by simp
qed

text \<open>The small plant: the limit switch, whose address 0 is a cell of the table.\<close>

theorem update_sensors_bypasses_write_witness:
  "map_of (tag_mappings small_bridge) ''SENSOR_LIMIT_SWITCH'' =
     Some (tag_of ''BOOL'' ''DI'' 0 ''Sensor'') \<and>
   address_in_table small_bridge (tag_of ''BOOL'' ''DI'' 0 ''Sensor'') \<and>
   fst (update_sensors [(''SENSOR_LIMIT_SWITCH'', PyBool True)] small_bridge) = Inr () \<and>
   get_tag_value (snd (update_sensors [(''SENSOR_LIMIT_SWITCH'', PyBool True)] small_bridge))
     ''SENSOR_LIMIT_SWITCH'' = Inr (PyBool True) \<and>
   set_tag_value ''SENSOR_LIMIT_SWITCH'' (PyBool True) small_bridge =
     (Inl (ValueError ''Cannot write to table: DI''), small_bridge)"
proof -
  have rng: "address_in_table small_bridge (tag_of ''BOOL'' ''DI'' 0 ''Sensor'')"
    by (rule small_bridge_in_table)
  from update_sensors_bypasses_write [OF small_bridge_tags(2), of "PyBool True"] rng
  show ?thesis by (simp add: small_bridge_tags)
qed

text \<open>
  The claim as stated fails in its read-back, for a registered discrete input beyond the
  100 cells of the table: \<^verbatim>\<open>update_sensors\<close> returns and \<^verbatim>\<open>set_tag_value\<close>
  raises, as for every tag of the table, but the read of the tag after the update does
  not return the value (it raises).
\<close>

theorem update_sensors_beyond_table_unreadable:
  "map_of (tag_mappings far_bridge) ''SENSOR_FAR'' = Some (tag_of ''BOOL'' ''DI'' 150 ''Sensor'') \<and>
   fst (update_sensors [(''SENSOR_FAR'', PyBool True)] far_bridge) = Inr () \<and>
   set_tag_value ''SENSOR_FAR'' (PyBool True) far_bridge =
     (Inl (ValueError ''Cannot write to table: DI''), far_bridge) \<and>
   get_tag_value (snd (update_sensors [(''SENSOR_FAR'', PyBool True)] far_bridge)) ''SENSOR_FAR'' \<noteq>
     Inr (PyBool True)"
proof -
  let ?b = "snd (update_sensors [(''SENSOR_FAR'', PyBool True)] far_bridge)"
  have reg: "map_of (tag_mappings ?b) ''SENSOR_FAR'' = Some (tag_of ''BOOL'' ''DI'' 150 ''Sensor'')"
    by (simp add: update_sensors_def update_sensor_def far_bridge_tags)
  have blk: "table_block (bridge_context ?b) (table (tag_of ''BOOL'' ''DI'' 150 ''Sensor'')) =
          Some (setValues (replicate 100 (PyInt 0)) 150 [PyBool True])"
    by (simp add: update_sensors_def update_sensor_def far_bridge_tags table_block_def
        far_bridge_blocks)
  have "first_item (getValues (setValues (replicate 100 (PyInt 0)) 150 [PyBool True]) 150 1) =
          Inl IndexError"
    by (rule read_after_write_beyond) simp
  with get_tag_value_table [OF reg blk]
  have "get_tag_value ?b ''SENSOR_FAR'' = Inl IndexError" by simp
  moreover have "set_tag_value ''SENSOR_FAR'' (PyBool True) far_bridge =
      (Inl (ValueError ''Cannot write to table: DI''), far_bridge)"
    using set_tag_value_not_writable [OF far_bridge_tags(1), of "PyBool True"] by simp
  ultimately show ?thesis
    by (simp add: far_bridge_tags update_sensors_def)
qed

section \<open>What \<^verbatim>\<open>update_sensors\<close> changes\<close>

lemma update_sensor_tag_mappings [simp]:
  "tag_mappings (update_sensor item b) = tag_mappings b"
  by (simp add: update_sensor_def split: option.splits)

lemma update_sensor_co_hr [simp]:
  "co_block (bridge_context (update_sensor item b)) = co_block (bridge_context b)"
  "hr_block (bridge_context (update_sensor item b)) = hr_block (bridge_context b)"
  by (simp_all add: update_sensor_def split: option.splits)

lemma fold_update_sensor_tag_mappings [simp]:
  "tag_mappings (fold update_sensor sv b) = tag_mappings b"
  by (induction sv arbitrary: b) simp_all

lemma fold_update_sensor_co_hr [simp]:
  "co_block (bridge_context (fold update_sensor sv b)) = co_block (bridge_context b)"
  "hr_block (bridge_context (fold update_sensor sv b)) = hr_block (bridge_context b)"
  by (induction sv arbitrary: b) simp_all














end
